theory Spec2Isabelle
  imports Main
begin

section \<open>Data model (a2a/models/message.py, a2a/models/task.py)\<close>

text \<open>
  \<^verbatim>\<open>Dict[str, Any]\<close> values are opaque to the task manager; they are kept as
  association lists from keys to rendered values.
\<close>

type_synonym json_dict = "(string \<times> string) list"

datatype MessageRole = USER | AGENT

record FileContent =
  name_f :: "string option"
  mime_type :: "string option"
  bytes :: "string option"
  uri :: "string option"

text \<open>The \<^verbatim>\<open>type\<close> field of a part is its constructor.\<close>

datatype Part =
    TextPart string "json_dict option"
  | FilePart FileContent "json_dict option"
  | DataPart json_dict "json_dict option"

record Message =
  role :: MessageRole
  parts :: "Part list"
  message_id :: "string option"
  context_id :: "string option"
  metadata_m :: "json_dict option"

datatype TaskState =
  SUBMITTED | WORKING | INPUT_REQUIRED | COMPLETED | CANCELED | FAILED | UNKNOWN

text \<open>A timestamp is a reading of the clock (see \<open>utcnow\<close> below).\<close>

record TaskStatus =
  state :: TaskState
  message :: "Message option"
  timestamp :: nat

record Artifact =
  name_a :: "string option"
  description_a :: "string option"
  parts_a :: "Part list"
  index_a :: int
  append_a :: "bool option"
  last_chunk :: "bool option"
  metadata_a :: "json_dict option"

record Task =
  id_t :: string
  session_id_t :: "string option"
  status :: TaskStatus
  artifacts :: "Artifact list option"
  history :: "Message list option"
  metadata_t :: "json_dict option"

record TaskSendParams =
  session_id_p :: "string option"
  message_p :: Message
  push_notification :: "json_dict option"

record TaskQueryParams =
  id_q :: string
  history_length :: "int option"
  metadata_q :: "json_dict option"

record TaskStatusUpdateEvent =
  id_e :: string
  status_e :: TaskStatus
  final :: bool
  metadata_e :: "json_dict option"

section \<open>Exceptions (a2a/exceptions.py)\<close>

text \<open>
  Each constructor takes the arguments of the Python constructor.
  \<open>InternalErrorException\<close> also records the exception that was being handled when it
  was raised (Python's implicit \<^verbatim>\<open>__context__\<close>), \<open>None\<close> when it is raised outside
  an \<^verbatim>\<open>except\<close> block. \<open>Exception\<close> and \<open>ValueError\<close> are the built-in ones.
\<close>

datatype exn =
    Exception string
  | ValueError string
  | TaskNotFoundException string
  | TaskNotCancelableException string
  | InternalErrorException string "exn option"

fun str_exn :: "exn \<Rightarrow> string" where
  "str_exn (Exception m) = m"
| "str_exn (ValueError m) = m"
| "str_exn (TaskNotFoundException task_id) = ''Task not found: '' @ task_id"
| "str_exn (TaskNotCancelableException task_id) = ''Task cannot be canceled: '' @ task_id"
| "str_exn (InternalErrorException m _) = m"

fun code :: "exn \<Rightarrow> int option" where
  "code (TaskNotFoundException _) = Some (-32001)"
| "code (TaskNotCancelableException _) = Some (-32002)"
| "code (InternalErrorException _ _) = Some (-32603)"
| "code _ = None"

section \<open>The world: objects, the store's dictionary, the clock\<close>

text \<open>
  Python passes \<^verbatim>\<open>Task\<close> objects by reference and \<^verbatim>\<open>InMemoryTaskStore\<close> keeps the
  references it is given, so the task a manager method mutates is the very object the
  store holds. Task objects therefore live in a heap indexed by addresses; \<open>nxt\<close> is
  the next address to allocate; \<open>tasks\<close> is the dictionary \<^verbatim>\<open>_tasks\<close>, from ids to
  addresses. A history list belongs to one task only (the constructor copies the list
  it is given, a slice is a new list), so it is a field of the object.

  \<open>clock\<close> is what \<^verbatim>\<open>datetime.utcnow()\<close> reads. \<open>trace\<close> is a log of what a run did
  that an outside observer can see, in order: the calls of the store that write (with
  the task as it was at the call), the invocations of the message handler, and the
  events a generator yields.
\<close>

datatype effect =
    Created Task
  | Updated Task
  | Deleted string
  | Invoked Message
  | Yielded TaskStatusUpdateEvent

record world =
  heap :: "nat \<Rightarrow> Task"
  nxt :: nat
  tasks :: "string \<rightharpoonup> nat"
  clock :: nat
  trace :: "effect list"

text \<open>A computation either raises or returns, and leaves a world behind.\<close>

type_synonym 'a action = "world \<Rightarrow> (exn + 'a) \<times> world"

definition returnM :: "'a \<Rightarrow> 'a action" where
  "returnM x = (\<lambda>s. (Inr x, s))"

definition raiseM :: "exn \<Rightarrow> 'a action" where
  "raiseM e = (\<lambda>s. (Inl e, s))"

definition bindM :: "'a action \<Rightarrow> ('a \<Rightarrow> 'b action) \<Rightarrow> 'b action" where
  "bindM m f = (\<lambda>s. case m s of (Inl e, s') \<Rightarrow> (Inl e, s') | (Inr x, s') \<Rightarrow> f x s')"

text \<open>\<^verbatim>\<open>try: m except Exception as e: h\<close>\<close>

definition tryM :: "'a action \<Rightarrow> (exn \<Rightarrow> 'a action) \<Rightarrow> 'a action" where
  "tryM m h = (\<lambda>s. case m s of (Inl e, s') \<Rightarrow> h e s' | (Inr x, s') \<Rightarrow> (Inr x, s'))"

definition utcnow :: "nat action" where
  "utcnow = (\<lambda>s. (Inr (clock s), s\<lparr>clock := Suc (clock s)\<rparr>))"

definition new_Task :: "Task \<Rightarrow> nat action" where
  "new_Task t = (\<lambda>s. (Inr (nxt s), s\<lparr>heap := (heap s)(nxt s := t), nxt := Suc (nxt s)\<rparr>))"

definition get_status :: "nat \<Rightarrow> TaskStatus action" where
  "get_status task = (\<lambda>s. (Inr (status (heap s task)), s))"

definition set_status :: "nat \<Rightarrow> TaskStatus \<Rightarrow> unit action" where
  "set_status task st = (\<lambda>s. (Inr (), s\<lparr>heap := (heap s)(task := (heap s task)\<lparr>status := st\<rparr>)\<rparr>))"

definition get_history :: "nat \<Rightarrow> Message list option action" where
  "get_history task = (\<lambda>s. (Inr (history (heap s task)), s))"

definition set_history :: "nat \<Rightarrow> Message list option \<Rightarrow> unit action" where
  "set_history task h = (\<lambda>s. (Inr (), s\<lparr>heap := (heap s)(task := (heap s task)\<lparr>history := h\<rparr>)\<rparr>))"

text \<open>
  \<^verbatim>\<open>task.history.append(m)\<close>. On \<^verbatim>\<open>None\<close> Python raises AttributeError; every call
  below comes after the history was set to a list.
\<close>

definition history_append :: "nat \<Rightarrow> Message \<Rightarrow> unit action" where
  "history_append task m = (\<lambda>s.
     case history (heap s task) of
       None \<Rightarrow> (Inl (Exception ''AttributeError''), s)
     | Some h \<Rightarrow> (Inr (), s\<lparr>heap := (heap s)(task := (heap s task)\<lparr>history := Some (h @ [m])\<rparr>)\<rparr>))"

definition yield :: "TaskStatusUpdateEvent \<Rightarrow> unit action" where
  "yield ev = (\<lambda>s. (Inr (), s\<lparr>trace := trace s @ [Yielded ev]\<rparr>))"

text \<open>Truth value of an optional list: \<^verbatim>\<open>None\<close> and \<^verbatim>\<open>[]\<close> are false.\<close>

fun truthy :: "'a list option \<Rightarrow> bool" where
  "truthy None = False"
| "truthy (Some []) = False"
| "truthy (Some (x # xs)) = True"

text \<open>The slice \<^verbatim>\<open>xs[start:]\<close>: a negative start counts from the end, and both are clamped.\<close>

definition slice_from :: "int \<Rightarrow> 'a list \<Rightarrow> 'a list" where
  "slice_from start xs =
     (let n = int (length xs);
          lo = (if start < 0 then max (n + start) 0 else min start n)
      in drop (nat lo) xs)"

section \<open>InMemoryTaskStore (a2a/server/task_store.py)\<close>

definition store_create_task :: "nat \<Rightarrow> nat action" where
  "store_create_task task = (\<lambda>s.
     let t = heap s task in
     if tasks s (id_t t) \<noteq> None
     then (Inl (ValueError (''Task with ID '' @ id_t t @ '' already exists'')), s)
     else (Inr task, s\<lparr>tasks := (tasks s)(id_t t \<mapsto> task), trace := trace s @ [Created t]\<rparr>))"

definition store_get_task :: "string \<Rightarrow> nat action" where
  "store_get_task task_id = (\<lambda>s.
     case tasks s task_id of
       None \<Rightarrow> (Inl (TaskNotFoundException task_id), s)
     | Some task \<Rightarrow> (Inr task, s))"

definition store_update_task :: "nat \<Rightarrow> nat action" where
  "store_update_task task = (\<lambda>s.
     let t = heap s task in
     if tasks s (id_t t) = None
     then (Inl (TaskNotFoundException (id_t t)), s)
     else (Inr task, s\<lparr>tasks := (tasks s)(id_t t \<mapsto> task), trace := trace s @ [Updated t]\<rparr>))"

definition store_delete_task :: "string \<Rightarrow> bool action" where
  "store_delete_task task_id = (\<lambda>s.
     if tasks s task_id = None
     then (Inr False, s)
     else (Inr True, s\<lparr>tasks := (tasks s)(task_id := None), trace := trace s @ [Deleted task_id]\<rparr>))"

definition store_task_exists :: "string \<Rightarrow> bool action" where
  "store_task_exists task_id = (\<lambda>s. (Inr (tasks s task_id \<noteq> None), s))"

section \<open>TaskManager (a2a/server/task_manager.py)\<close>

text \<open>
  The manager's callbacks. The message handler returns a response or raises. The three
  notification callbacks are given the task and return nothing or raise; an \<open>Inl\<close> or
  \<open>Some\<close> result is the exception raised. A callback sees the task and the message
  but does not itself write to the store. \<^verbatim>\<open>on_agent_card_query\<close> plays no part in
  the task life cycle and is left out.
\<close>

record TaskManager =
  on_message_received :: "(Message \<Rightarrow> exn + Message) option"
  on_task_created :: "(Task \<Rightarrow> exn option) option"
  on_task_updated :: "(Task \<Rightarrow> exn option) option"
  on_task_canceled :: "(Task \<Rightarrow> exn option) option"

text \<open>\<^verbatim>\<open>await self.on_message_received(m)\<close>, logged.\<close>

definition call_handler :: "(Message \<Rightarrow> exn + Message) \<Rightarrow> Message \<Rightarrow> Message action" where
  "call_handler f m = (\<lambda>s. (f m, s\<lparr>trace := trace s @ [Invoked m]\<rparr>))"

text \<open>\<^verbatim>\<open>if cb: await cb(task)\<close>\<close>

definition notify :: "(Task \<Rightarrow> exn option) option \<Rightarrow> nat \<Rightarrow> unit action" where
  "notify cb task =
     (case cb of
        None \<Rightarrow> returnM ()
      | Some f \<Rightarrow> (\<lambda>s. case f (heap s task) of None \<Rightarrow> (Inr (), s) | Some e \<Rightarrow> (Inl e, s)))"

definition process_message :: "TaskManager \<Rightarrow> Message \<Rightarrow> Message action" where
  "process_message mgr m =
     (case on_message_received mgr of
        None \<Rightarrow> raiseM (InternalErrorException ''No message handler registered'' None)
      | Some f \<Rightarrow>
          tryM (call_handler f m)
            (\<lambda>e. raiseM (InternalErrorException
                           (''Error processing message: '' @ str_exn e) (Some e))))"

text \<open>\<open>uuid4\<close> is the string that \<^verbatim>\<open>str(uuid.uuid4())\<close> returns in this call.\<close>

definition create_task :: "TaskManager \<Rightarrow> TaskSendParams \<Rightarrow> string \<Rightarrow> nat action" where
  "create_task mgr params uuid4 =
     bindM utcnow (\<lambda>now.
     bindM (new_Task
              \<lparr>id_t = uuid4, session_id_t = session_id_p params,
               status = \<lparr>state = SUBMITTED, message = None, timestamp = now\<rparr>,
               artifacts = None, history = Some [message_p params],
               metadata_t = Some []\<rparr>) (\<lambda>task.
     bindM (store_create_task task) (\<lambda>_.
     bindM (notify (on_task_created mgr) task) (\<lambda>_.
     bindM (tryM
        (bindM utcnow (\<lambda>now.
         bindM (set_status task \<lparr>state = WORKING, message = None, timestamp = now\<rparr>) (\<lambda>_.
         bindM (store_update_task task) (\<lambda>_.
         (case on_message_received mgr of
            None \<Rightarrow> returnM ()
          | Some f \<Rightarrow>
              bindM (call_handler f (message_p params)) (\<lambda>response.
              bindM (history_append task response) (\<lambda>_.
              bindM utcnow (\<lambda>now.
              bindM (set_status task
                       \<lparr>state = COMPLETED, message = Some response, timestamp = now\<rparr>) (\<lambda>_.
              bindM (store_update_task task) (\<lambda>_.
              notify (on_task_updated mgr) task))))))))))
        (\<lambda>e.
         bindM utcnow (\<lambda>now.
         bindM (set_status task \<lparr>state = FAILED, message = None, timestamp = now\<rparr>) (\<lambda>_.
         bindM (store_update_task task) (\<lambda>_.
         raiseM (InternalErrorException
                   (''Error processing task: '' @ str_exn e) (Some e))))))) (\<lambda>_.
     returnM task)))))"

definition get_task :: "TaskManager \<Rightarrow> TaskQueryParams \<Rightarrow> nat action" where
  "get_task mgr params =
     bindM (store_get_task (id_q params)) (\<lambda>task.
     bindM (get_history task) (\<lambda>h.
     bindM (case history_length params of
              None \<Rightarrow> returnM ()
            | Some n \<Rightarrow>
                (case h of
                   Some (x # xs) \<Rightarrow> set_history task (Some (slice_from (- n) (x # xs)))
                 | _ \<Rightarrow> returnM ())) (\<lambda>_.
     returnM task)))"

definition send_task_message :: "TaskManager \<Rightarrow> string \<Rightarrow> TaskSendParams \<Rightarrow> nat action" where
  "send_task_message mgr task_id params =
     bindM (store_get_task task_id) (\<lambda>task.
     bindM (get_history task) (\<lambda>h.
     bindM (if \<not> truthy h then set_history task (Some []) else returnM ()) (\<lambda>_.
     bindM (history_append task (message_p params)) (\<lambda>_.
     bindM utcnow (\<lambda>now.
     bindM (set_status task \<lparr>state = WORKING, message = None, timestamp = now\<rparr>) (\<lambda>_.
     bindM (store_update_task task) (\<lambda>_.
     bindM (tryM
        (case on_message_received mgr of
           None \<Rightarrow> returnM ()
         | Some f \<Rightarrow>
             bindM (call_handler f (message_p params)) (\<lambda>response.
             bindM (history_append task response) (\<lambda>_.
             bindM utcnow (\<lambda>now.
             bindM (set_status task
                      \<lparr>state = COMPLETED, message = Some response, timestamp = now\<rparr>) (\<lambda>_.
             bindM (store_update_task task) (\<lambda>_.
             notify (on_task_updated mgr) task))))))
        (\<lambda>e.
         bindM utcnow (\<lambda>now.
         bindM (set_status task \<lparr>state = FAILED, message = None, timestamp = now\<rparr>) (\<lambda>_.
         bindM (store_update_task task) (\<lambda>_.
         raiseM (InternalErrorException
                   (''Error processing task message: '' @ str_exn e) (Some e))))))) (\<lambda>_.
     returnM task))))))))"

text \<open>
  The generators, run until they are exhausted or raise; what they yield goes to the
  trace. \<^verbatim>\<open>model_dump()\<close> takes a snapshot of the event.
\<close>

definition send_task_message_stream ::
    "TaskManager \<Rightarrow> string \<Rightarrow> TaskSendParams \<Rightarrow> unit action" where
  "send_task_message_stream mgr task_id params =
     bindM (store_get_task task_id) (\<lambda>task.
     bindM (get_history task) (\<lambda>h.
     bindM (if \<not> truthy h then set_history task (Some []) else returnM ()) (\<lambda>_.
     bindM (history_append task (message_p params)) (\<lambda>_.
     bindM utcnow (\<lambda>now.
     bindM (set_status task \<lparr>state = WORKING, message = None, timestamp = now\<rparr>) (\<lambda>_.
     bindM (store_update_task task) (\<lambda>_.
     bindM (get_status task) (\<lambda>st.
     bindM (yield \<lparr>id_e = task_id, status_e = st, final = False, metadata_e = None\<rparr>) (\<lambda>_.
     tryM
        (case on_message_received mgr of
           None \<Rightarrow> returnM ()
         | Some f \<Rightarrow>
             bindM (call_handler f (message_p params)) (\<lambda>response.
             bindM (history_append task response) (\<lambda>_.
             bindM utcnow (\<lambda>now.
             bindM (set_status task
                      \<lparr>state = COMPLETED, message = Some response, timestamp = now\<rparr>) (\<lambda>_.
             bindM (store_update_task task) (\<lambda>_.
             bindM (get_status task) (\<lambda>st.
             bindM (yield \<lparr>id_e = task_id, status_e = st, final = True,
                           metadata_e = None\<rparr>) (\<lambda>_.
             notify (on_task_updated mgr) task))))))))
        (\<lambda>e.
         bindM utcnow (\<lambda>now.
         bindM (set_status task \<lparr>state = FAILED, message = None, timestamp = now\<rparr>) (\<lambda>_.
         bindM (store_update_task task) (\<lambda>_.
         bindM (get_status task) (\<lambda>st.
         bindM (yield \<lparr>id_e = task_id, status_e = st, final = True, metadata_e = None\<rparr>) (\<lambda>_.
         raiseM (InternalErrorException
                   (''Error processing task message: '' @ str_exn e) (Some e)))))))))))))))))"

definition cancel_task :: "TaskManager \<Rightarrow> string \<Rightarrow> nat action" where
  "cancel_task mgr task_id =
     bindM (store_get_task task_id) (\<lambda>task.
     bindM (get_status task) (\<lambda>st.
     if state st \<in> set [COMPLETED, FAILED, CANCELED]
     then raiseM (TaskNotCancelableException task_id)
     else
       bindM utcnow (\<lambda>now.
       bindM (set_status task \<lparr>state = CANCELED, message = None, timestamp = now\<rparr>) (\<lambda>_.
       bindM (store_update_task task) (\<lambda>_.
       bindM (notify (on_task_canceled mgr) task) (\<lambda>_.
       returnM task))))))"

definition resubscribe_task :: "TaskManager \<Rightarrow> string \<Rightarrow> unit action" where
  "resubscribe_task mgr task_id =
     bindM (store_get_task task_id) (\<lambda>task.
     bindM (get_status task) (\<lambda>st.
     yield \<lparr>id_e = task_id, status_e = st,
            final = (state st \<in> set [COMPLETED, FAILED, CANCELED]), metadata_e = None\<rparr>))"

text \<open>A notification callback that is absent or never raises.\<close>

definition quiet :: "(Task \<Rightarrow> exn option) option \<Rightarrow> bool" where
  "quiet cb \<longleftrightarrow> (\<forall>f t. cb = Some f \<longrightarrow> f t = None)"

text \<open>The entries of an optional list, \<^verbatim>\<open>None\<close> read as no entries.\<close>

fun entries :: "'a list option \<Rightarrow> 'a list" where
  "entries None = []"
| "entries (Some h) = h"

text \<open>
  The store as the manager keeps it: every object is filed under its own id, and
  every filed object has been allocated.
\<close>

definition well_filed :: "world \<Rightarrow> bool" where
  "well_filed s \<longleftrightarrow> (\<forall>k a. tasks s k = Some a \<longrightarrow> id_t (heap s a) = k \<and> a < nxt s)"

text \<open>The terminal states.\<close>

definition terminal :: "TaskState \<Rightarrow> bool" where
  "terminal st \<longleftrightarrow> st = COMPLETED \<or> st = FAILED \<or> st = CANCELED"

text \<open>The events yielded, and the messages the handler was invoked on, in a trace.\<close>

fun events :: "effect list \<Rightarrow> TaskStatusUpdateEvent list" where
  "events [] = []"
| "events (Yielded ev # tr) = ev # events tr"
| "events (_ # tr) = events tr"

fun invocations :: "effect list \<Rightarrow> Message list" where
  "invocations [] = []"
| "invocations (Invoked m # tr) = m # invocations tr"
| "invocations (_ # tr) = invocations tr"

section \<open>Concrete data for the examples\<close>

definition text_message :: "MessageRole \<Rightarrow> string \<Rightarrow> Message" where
  "text_message r txt =
     \<lparr>role = r, parts = [TextPart txt None], message_id = None, context_id = None,
      metadata_m = None\<rparr>"

definition blank_task :: Task where
  "blank_task =
     \<lparr>id_t = [], session_id_t = None,
      status = \<lparr>state = UNKNOWN, message = None, timestamp = 0\<rparr>,
      artifacts = None, history = None, metadata_t = None\<rparr>"

text \<open>A world with an empty store and no object allocated.\<close>

definition world0 :: world where
  "world0 = \<lparr>heap = (\<lambda>_. blank_task), nxt = 0, tasks = Map.empty, clock = 0, trace = []\<rparr>"

text \<open>The task of the store's tests: \<^verbatim>\<open>Task(id=..., status=TaskStatus(state=st, ...))\<close>.\<close>

definition sample_task :: "string \<Rightarrow> TaskState \<Rightarrow> Message list option \<Rightarrow> Task" where
  "sample_task task_id st h =
     \<lparr>id_t = task_id, session_id_t = None,
      status = \<lparr>state = st, message = None, timestamp = 0\<rparr>,
      artifacts = None, history = h, metadata_t = None\<rparr>"

text \<open>A world in which one task object exists at address 0 and is not stored yet.\<close>

definition world_with :: "Task \<Rightarrow> world" where
  "world_with t = \<lparr>heap = (\<lambda>_. blank_task)(0 := t), nxt = 1, tasks = Map.empty, clock = 1, trace = []\<rparr>"

text \<open>A world in which that task is stored under its id.\<close>

definition world_storing :: "Task \<Rightarrow> world" where
  "world_storing t = (world_with t)\<lparr>tasks := [id_t t \<mapsto> 0]\<rparr>"

text \<open>
  The echo agent of samples/echo\_agent/main.py; \<open>mid\<close> is the message id it draws.
\<close>

fun is_text :: "Part \<Rightarrow> bool" where
  "is_text (TextPart _ _) = True"
| "is_text _ = False"

definition echo_agent :: "string \<Rightarrow> Message \<Rightarrow> exn + Message" where
  "echo_agent mid m =
     (let response_text =
        (case filter is_text (parts m) of
           TextPart original_text _ # _ \<Rightarrow> ''Echo: '' @ original_text
         | _ \<Rightarrow> ''Echo: (No text content found)'')
      in Inr \<lparr>role = AGENT, parts = [TextPart response_text None], message_id = Some mid,
              context_id = context_id m, metadata_m = None\<rparr>)"

text \<open>A handler that raises.\<close>

definition failing_agent :: "Message \<Rightarrow> exn + Message" where
  "failing_agent m = Inl (Exception ''boom'')"

definition manager :: "(Message \<Rightarrow> exn + Message) option \<Rightarrow> TaskManager" where
  "manager f =
     \<lparr>on_message_received = f, on_task_created = None, on_task_updated = None,
      on_task_canceled = None\<rparr>"

definition send_params :: "string \<Rightarrow> TaskSendParams" where
  "send_params txt =
     \<lparr>session_id_p = None, message_p = text_message USER txt, push_notification = None\<rparr>"

definition query :: "string \<Rightarrow> int option \<Rightarrow> TaskQueryParams" where
  "query task_id n = \<lparr>id_q = task_id, history_length = n, metadata_q = None\<rparr>"

definition three_messages :: "Message list" where
  "three_messages = [text_message USER ''one'', text_message AGENT ''two'', text_message USER ''three'']"

lemmas action_defs =
  returnM_def raiseM_def bindM_def tryM_def utcnow_def new_Task_def get_status_def
  set_status_def get_history_def set_history_def history_append_def yield_def
  call_handler_def notify_def

lemmas store_defs =
  store_create_task_def store_get_task_def store_update_task_def store_delete_task_def
  store_task_exists_def

lemmas example_defs =
  text_message_def blank_task_def world0_def sample_task_def world_with_def
  world_storing_def echo_agent_def failing_agent_def manager_def send_params_def query_def
  three_messages_def

section \<open>Auxiliary facts\<close>

lemma truthy_entries: "\<not> truthy h \<Longrightarrow> entries h = []"
  by (cases h rule: truthy.cases) auto

lemma invocations_append: "invocations (xs @ ys) = invocations xs @ invocations ys"
  by (induction xs rule: invocations.induct) auto

lemma events_append: "events (xs @ ys) = events xs @ events ys"
  by (induction xs rule: events.induct) auto

lemma notify_quiet: "quiet cb \<Longrightarrow> notify cb a s = (Inr (), s)"
  by (auto simp: quiet_def notify_def returnM_def split: option.splits)

section \<open>The manager keeps the store well filed\<close>

text \<open>
  The theorems below are about a task \<open>a\<close> stored under \<open>task_id\<close> with
  \<open>id_t (heap s a) = task_id\<close>. That is the case of every stored task in every world
  the manager reaches from the empty store, whatever the outcome of its calls.
\<close>

lemma well_filed_world0: "well_filed world0"
  by (simp add: well_filed_def world0_def)

lemma well_filed_create_task:
  "well_filed s \<Longrightarrow> well_filed (snd (create_task mgr params uuid4 s))"
  unfolding well_filed_def
  by (auto simp: create_task_def action_defs store_create_task_def store_update_task_def
      Let_def less_Suc_eq split: option.splits sum.splits if_splits)

lemma well_filed_get_task:
  "well_filed s \<Longrightarrow> well_filed (snd (get_task mgr params s))"
  unfolding well_filed_def
  by (auto simp: get_task_def action_defs store_get_task_def
      Let_def split: option.splits sum.splits if_splits list.splits)

lemma well_filed_send_task_message:
  "well_filed s \<Longrightarrow> well_filed (snd (send_task_message mgr task_id params s))"
  unfolding well_filed_def
  by (auto simp: send_task_message_def action_defs store_get_task_def store_update_task_def
      Let_def split: option.splits sum.splits if_splits)

lemma well_filed_send_task_message_stream:
  "well_filed s \<Longrightarrow> well_filed (snd (send_task_message_stream mgr task_id params s))"
  unfolding well_filed_def
  by (auto simp: send_task_message_stream_def action_defs store_get_task_def
      store_update_task_def Let_def split: option.splits sum.splits if_splits)

lemma well_filed_cancel_task:
  "well_filed s \<Longrightarrow> well_filed (snd (cancel_task mgr task_id s))"
  unfolding well_filed_def
  by (auto simp: cancel_task_def action_defs store_get_task_def store_update_task_def
      Let_def split: option.splits sum.splits if_splits)

lemma well_filed_resubscribe_task:
  "well_filed s \<Longrightarrow> well_filed (snd (resubscribe_task mgr task_id s))"
  unfolding well_filed_def
  by (auto simp: resubscribe_task_def action_defs store_get_task_def
      Let_def split: option.splits sum.splits if_splits)

section \<open>The store\<close>

text \<open>
  C7. Store round trip. For a task object whose id is not in the store: create returns
  the object and a following get returns the same object, unchanged. After the create,
  whatever was done to the objects since, update of an object with that id succeeds
  and a following get returns that object as it is then. From any world, after delete
  the id does not exist and get raises TaskNotFoundException (code -32001); delete
  returns True when the id was present, and on an absent id it returns False, raises
  nothing and changes nothing.
\<close>

theorem store_round_trip:
  assumes fresh: "tasks s (id_t (heap s t)) = None"
  shows "fst (store_create_task t s) = Inr t \<and>
         store_get_task (id_t (heap s t)) (snd (store_create_task t s))
           = (Inr t, snd (store_create_task t s)) \<and>
         heap (snd (store_create_task t s)) = heap s \<and>
         (id_t (hp u) = id_t (heap s t) \<longrightarrow>
           fst (store_update_task u (snd (store_create_task t s)\<lparr>heap := hp\<rparr>)) = Inr u \<and>
           fst (store_get_task (id_t (heap s t))
                  (snd (store_update_task u (snd (store_create_task t s)\<lparr>heap := hp\<rparr>)))) = Inr u \<and>
           heap (snd (store_update_task u (snd (store_create_task t s)\<lparr>heap := hp\<rparr>))) u = hp u) \<and>
         fst (store_task_exists task_id (snd (store_delete_task task_id w))) = Inr False \<and>
         fst (store_get_task task_id (snd (store_delete_task task_id w)))
           = Inl (TaskNotFoundException task_id) \<and>
         code (TaskNotFoundException task_id) = Some (-32001) \<and>
         fst (store_delete_task task_id w) = Inr (tasks w task_id \<noteq> None) \<and>
         store_delete_task (id_t (heap s t)) s = (Inr False, s)"
  using fresh
  by (simp add: store_create_task_def store_get_task_def store_update_task_def
      store_delete_task_def store_task_exists_def Let_def)

text \<open>
  The store's tests: create \<^verbatim>\<open>test-task-1\<close>, set its state to COMPLETED and update
  it, read it back; delete it from a store that holds it.
\<close>

theorem store_round_trip_witness:
  "tasks (world_with (sample_task ''test-task-1'' SUBMITTED None))
     (id_t (heap (world_with (sample_task ''test-task-1'' SUBMITTED None)) 0)) = None \<and>
   id_t (((\<lambda>_. blank_task)(0 := sample_task ''test-task-1'' COMPLETED None)) 0)
     = id_t (heap (world_with (sample_task ''test-task-1'' SUBMITTED None)) 0) \<and>
   fst (store_create_task 0 (world_with (sample_task ''test-task-1'' SUBMITTED None))) = Inr 0 \<and>
   fst (store_get_task ''test-task-1''
          (snd (store_update_task 0
             (snd (store_create_task 0 (world_with (sample_task ''test-task-1'' SUBMITTED None)))
                \<lparr>heap := (\<lambda>_. blank_task)(0 := sample_task ''test-task-1'' COMPLETED None)\<rparr>))))
     = Inr 0 \<and>
   fst (store_delete_task ''test-task-1''
          (world_storing (sample_task ''test-task-1'' SUBMITTED None))) = Inr True \<and>
   fst (store_get_task ''test-task-1''
          (snd (store_delete_task ''test-task-1''
             (world_storing (sample_task ''test-task-1'' SUBMITTED None)))))
     = Inl (TaskNotFoundException ''test-task-1'')"
  using store_round_trip [of "world_with (sample_task ''test-task-1'' SUBMITTED None)" 0
      "(\<lambda>_. blank_task)(0 := sample_task ''test-task-1'' COMPLETED None)" 0
      "''test-task-1''" "world_storing (sample_task ''test-task-1'' SUBMITTED None)"]
  by (simp add: world_with_def world_storing_def sample_task_def)

section \<open>Reading a task\<close>

text \<open>
  C10. For a stored task whose history has n > 0 entries, get\_task with
  history\_length = 0 returns the task with all n entries (the slice
  \<^verbatim>\<open>history[-0:]\<close> is the whole list), and with history\_length = k, k >= 1, it
  returns the task with exactly the last min(k, n) entries.
\<close>

theorem get_task_history_length:
  assumes stored: "tasks s (id_q params) = Some a"
    and hist: "history (heap s a) = Some h" "h \<noteq> []"
  shows "fst (get_task mgr (params\<lparr>history_length := Some 0\<rparr>) s) = Inr a \<and>
         history (heap (snd (get_task mgr (params\<lparr>history_length := Some 0\<rparr>) s)) a) = Some h \<and>
         (1 \<le> k \<longrightarrow>
            fst (get_task mgr (params\<lparr>history_length := Some k\<rparr>) s) = Inr a \<and>
            history (heap (snd (get_task mgr (params\<lparr>history_length := Some k\<rparr>) s)) a)
              = Some (drop (length h - min (nat k) (length h)) h) \<and>
            length (drop (length h - min (nat k) (length h)) h) = min (nat k) (length h))"
proof -
  obtain x xs where h: "h = x # xs"
    using hist(2) by (cases h) auto
  show ?thesis
    using stored hist(1) unfolding h
    by (auto simp: get_task_def action_defs store_get_task_def slice_from_def Let_def
        min_def max_def nat_diff_distrib nat_add_distrib)
qed

theorem get_task_history_length_witness:
  "tasks (world_storing (sample_task ''t1'' COMPLETED (Some three_messages))) (id_q (query ''t1'' None))
     = Some 0 \<and>
   history (heap (world_storing (sample_task ''t1'' COMPLETED (Some three_messages))) 0)
     = Some three_messages \<and>
   three_messages \<noteq> [] \<and> (1::int) \<le> 2 \<and>
   history (heap (snd (get_task (manager None) (query ''t1'' (Some 0))
       (world_storing (sample_task ''t1'' COMPLETED (Some three_messages))))) 0)
     = Some three_messages \<and>
   history (heap (snd (get_task (manager None) (query ''t1'' (Some 2))
       (world_storing (sample_task ''t1'' COMPLETED (Some three_messages))))) 0)
     = Some [text_message AGENT ''two'', text_message USER ''three'']"
  using get_task_history_length [of "world_storing (sample_task ''t1'' COMPLETED (Some three_messages))"
      "query ''t1'' None" 0 three_messages "manager None" 2]
  by (simp add: world_storing_def world_with_def sample_task_def query_def three_messages_def)

section \<open>Resubscribing\<close>

text \<open>
  C8. For a stored task, resubscribe\_task yields exactly one event; its status is the
  task's current status and its final flag is set exactly when the current state is
  COMPLETED, FAILED or CANCELED. The call returns, and nothing but the log of yielded
  events changes: the objects and the store's dictionary are as before.
\<close>

theorem resubscribe_task_snapshot:
  assumes stored: "tasks s task_id = Some a"
  shows "resubscribe_task mgr task_id s =
           (Inr (), s\<lparr>trace := trace s @
              [Yielded \<lparr>id_e = task_id, status_e = status (heap s a),
                        final = terminal (state (status (heap s a))), metadata_e = None\<rparr>]\<rparr>)"
  using stored
  by (auto simp: resubscribe_task_def action_defs store_get_task_def terminal_def)

theorem resubscribe_task_snapshot_witness:
  "tasks (world_storing (sample_task ''t1'' FAILED None)) ''t1'' = Some 0 \<and>
   events (trace (snd (resubscribe_task (manager None) ''t1''
                         (world_storing (sample_task ''t1'' FAILED None)))))
     = [\<lparr>id_e = ''t1'', status_e = \<lparr>state = FAILED, message = None, timestamp = 0\<rparr>,
         final = True, metadata_e = None\<rparr>] \<and>
   heap (snd (resubscribe_task (manager None) ''t1'' (world_storing (sample_task ''t1'' FAILED None))))
     = heap (world_storing (sample_task ''t1'' FAILED None)) \<and>
   tasks (snd (resubscribe_task (manager None) ''t1'' (world_storing (sample_task ''t1'' FAILED None))))
     = tasks (world_storing (sample_task ''t1'' FAILED None))"
  using resubscribe_task_snapshot [of "world_storing (sample_task ''t1'' FAILED None)" "''t1''" 0
      "manager None"]
  by (simp add: world_storing_def world_with_def sample_task_def terminal_def)

section \<open>Canceling\<close>

text \<open>
  C6. For a stored task (filed under its own id), cancel\_task raises
  TaskNotCancelableException (code -32002), changing nothing, when the state is
  COMPLETED, FAILED or CANCELED. Otherwise it sets the state to CANCELED and writes
  the task to the store; the call then returns the task, unless the on\_task\_canceled
  callback raises, whose exception it passes on; and a second cancel\_task of the same
  task raises TaskNotCancelableException. So, with a callback that is absent or does
  not raise, the call fails with TaskNotCancelableException if and only if the state
  was terminal, and succeeds otherwise.
\<close>

theorem cancel_task_once:
  assumes stored: "tasks s task_id = Some a"
    and key: "id_t (heap s a) = task_id"
  shows "(terminal (state (status (heap s a))) \<longrightarrow>
            cancel_task mgr task_id s = (Inl (TaskNotCancelableException task_id), s)) \<and>
         code (TaskNotCancelableException task_id) = Some (-32002) \<and>
         (\<not> terminal (state (status (heap s a))) \<longrightarrow>
            status (heap (snd (cancel_task mgr task_id s)) a)
              = \<lparr>state = CANCELED, message = None, timestamp = clock s\<rparr> \<and>
            tasks (snd (cancel_task mgr task_id s)) = tasks s \<and>
            trace (snd (cancel_task mgr task_id s))
              = trace s @ [Updated (heap (snd (cancel_task mgr task_id s)) a)] \<and>
            fst (cancel_task mgr task_id s)
              = (case on_task_canceled mgr of
                   None \<Rightarrow> Inr a
                 | Some f \<Rightarrow>
                     (case f (heap (snd (cancel_task mgr task_id s)) a) of
                        None \<Rightarrow> Inr a
                      | Some e \<Rightarrow> Inl e)) \<and>
            fst (cancel_task mgr' task_id (snd (cancel_task mgr task_id s)))
              = Inl (TaskNotCancelableException task_id)) \<and>
         (quiet (on_task_canceled mgr) \<longrightarrow>
            (fst (cancel_task mgr task_id s) = Inl (TaskNotCancelableException task_id)
               \<longleftrightarrow> terminal (state (status (heap s a)))) \<and>
            (fst (cancel_task mgr task_id s) = Inr a
               \<longleftrightarrow> \<not> terminal (state (status (heap s a)))))"
  using stored key
  by (auto simp: cancel_task_def action_defs store_get_task_def store_update_task_def
      terminal_def quiet_def Let_def fun_upd_idem split: option.splits)

text \<open>Canceling a WORKING task twice, and canceling a COMPLETED task.\<close>

theorem cancel_task_once_witness:
  "tasks (world_storing (sample_task ''t1'' WORKING None)) ''t1'' = Some 0 \<and>
   id_t (heap (world_storing (sample_task ''t1'' WORKING None)) 0) = ''t1'' \<and>
   \<not> terminal (state (status (heap (world_storing (sample_task ''t1'' WORKING None)) 0))) \<and>
   quiet (on_task_canceled (manager None)) \<and>
   fst (cancel_task (manager None) ''t1'' (world_storing (sample_task ''t1'' WORKING None)))
     = Inr 0 \<and>
   state (status (heap (snd (cancel_task (manager None) ''t1''
                               (world_storing (sample_task ''t1'' WORKING None)))) 0))
     = CANCELED \<and>
   fst (cancel_task (manager None) ''t1''
          (snd (cancel_task (manager None) ''t1''
                  (world_storing (sample_task ''t1'' WORKING None)))))
     = Inl (TaskNotCancelableException ''t1'') \<and>
   tasks (world_storing (sample_task ''t2'' COMPLETED None)) ''t2'' = Some 0 \<and>
   id_t (heap (world_storing (sample_task ''t2'' COMPLETED None)) 0) = ''t2'' \<and>
   terminal (state (status (heap (world_storing (sample_task ''t2'' COMPLETED None)) 0))) \<and>
   cancel_task (manager None) ''t2'' (world_storing (sample_task ''t2'' COMPLETED None))
     = (Inl (TaskNotCancelableException ''t2''), world_storing (sample_task ''t2'' COMPLETED None))"
  using cancel_task_once [of "world_storing (sample_task ''t1'' WORKING None)" "''t1''" 0
      "manager None" "manager None"]
    cancel_task_once [of "world_storing (sample_task ''t2'' COMPLETED None)" "''t2''" 0
      "manager None" "manager None"]
  by (simp add: world_storing_def world_with_def sample_task_def manager_def terminal_def
      quiet_def)

section \<open>Creating a task and sending to it\<close>

text \<open>
  C4. Let the handler return a response to the inbound message. Then every create\_task
  call that returns a task returns a new object whose id is the one drawn, an id the
  store did not hold; its state is COMPLETED with the response in status.message, and
  its history is the inbound message followed by the response. The store was written
  three times: the task was created in SUBMITTED with the inbound message alone, then
  updated in WORKING, and only then the handler was invoked, once; after it the task
  was updated in COMPLETED. The call does return whenever the id drawn is not in the
  store and the notification callbacks are absent or do not raise.
\<close>

theorem create_task_completed:
  assumes handler: "on_message_received mgr = Some f"
    and responds: "f (message_p params) = Inr response"
  shows "(tasks s uuid4 = None \<and> quiet (on_task_created mgr) \<and> quiet (on_task_updated mgr) \<longrightarrow>
            fst (create_task mgr params uuid4 s) = Inr (nxt s)) \<and>
         (fst (create_task mgr params uuid4 s) = Inr task \<longrightarrow>
            tasks s uuid4 = None \<and> task = nxt s \<and>
            tasks (snd (create_task mgr params uuid4 s)) = (tasks s)(uuid4 \<mapsto> task) \<and>
            heap (snd (create_task mgr params uuid4 s)) task
              = \<lparr>id_t = uuid4, session_id_t = session_id_p params,
                 status = \<lparr>state = COMPLETED, message = Some response,
                            timestamp = Suc (Suc (clock s))\<rparr>,
                 artifacts = None, history = Some [message_p params, response],
                 metadata_t = Some []\<rparr> \<and>
            trace (snd (create_task mgr params uuid4 s))
              = trace s @
                [Created \<lparr>id_t = uuid4, session_id_t = session_id_p params,
                    status = \<lparr>state = SUBMITTED, message = None, timestamp = clock s\<rparr>,
                    artifacts = None, history = Some [message_p params],
                    metadata_t = Some []\<rparr>,
                 Updated \<lparr>id_t = uuid4, session_id_t = session_id_p params,
                    status = \<lparr>state = WORKING, message = None, timestamp = Suc (clock s)\<rparr>,
                    artifacts = None, history = Some [message_p params],
                    metadata_t = Some []\<rparr>,
                 Invoked (message_p params),
                 Updated (heap (snd (create_task mgr params uuid4 s)) task)])"
  using handler responds
  by (auto simp: create_task_def action_defs store_create_task_def store_update_task_def
      quiet_def Let_def split: option.splits)

text \<open>The message ``hi'' sent to the echo agent.\<close>

theorem create_task_completed_witness:
  "on_message_received (manager (Some (echo_agent ''m1''))) = Some (echo_agent ''m1'') \<and>
   echo_agent ''m1'' (message_p (send_params ''hi''))
     = Inr ((text_message AGENT ''Echo: hi'')\<lparr>message_id := Some ''m1''\<rparr>) \<and>
   tasks world0 ''id1'' = None \<and>
   quiet (on_task_created (manager (Some (echo_agent ''m1'')))) \<and>
   quiet (on_task_updated (manager (Some (echo_agent ''m1'')))) \<and>
   fst (create_task (manager (Some (echo_agent ''m1''))) (send_params ''hi'') ''id1'' world0)
     = Inr 0 \<and>
   state (status (heap (snd (create_task (manager (Some (echo_agent ''m1'')))
                               (send_params ''hi'') ''id1'' world0)) 0)) = COMPLETED \<and>
   history (heap (snd (create_task (manager (Some (echo_agent ''m1'')))
                         (send_params ''hi'') ''id1'' world0)) 0)
     = Some [text_message USER ''hi'',
             (text_message AGENT ''Echo: hi'')\<lparr>message_id := Some ''m1''\<rparr>]"
  using create_task_completed [of "manager (Some (echo_agent ''m1''))" "echo_agent ''m1''"
      "send_params ''hi''" "(text_message AGENT ''Echo: hi'')\<lparr>message_id := Some ''m1''\<rparr>"
      world0 "''id1''" 0]
  by (simp add: example_defs quiet_def)

text \<open>
  C5. Let the handler raise e on the inbound message. A create\_task call that reaches
  the handler (the id drawn is not in the store, on\_task\_created is absent or does not
  raise) and a send\_task\_message call on a stored task (filed under its own id) both
  fail with InternalErrorException (code -32603) whose message ends with the text of
  e and whose context is e; the task is left in state FAILED and was written to the
  store in that state; and the handler was invoked exactly once.
\<close>

theorem handler_failure:
  assumes handler: "on_message_received mgr = Some f"
    and raises: "f (message_p params) = Inl e"
  shows "(tasks s uuid4 = None \<and> quiet (on_task_created mgr) \<longrightarrow>
            fst (create_task mgr params uuid4 s)
              = Inl (InternalErrorException (''Error processing task: '' @ str_exn e) (Some e)) \<and>
            tasks (snd (create_task mgr params uuid4 s)) = (tasks s)(uuid4 \<mapsto> nxt s) \<and>
            heap (snd (create_task mgr params uuid4 s)) (nxt s)
              = \<lparr>id_t = uuid4, session_id_t = session_id_p params,
                 status = \<lparr>state = FAILED, message = None, timestamp = Suc (Suc (clock s))\<rparr>,
                 artifacts = None, history = Some [message_p params],
                 metadata_t = Some []\<rparr> \<and>
            trace (snd (create_task mgr params uuid4 s))
              = trace s @
                [Created \<lparr>id_t = uuid4, session_id_t = session_id_p params,
                    status = \<lparr>state = SUBMITTED, message = None, timestamp = clock s\<rparr>,
                    artifacts = None, history = Some [message_p params],
                    metadata_t = Some []\<rparr>,
                 Updated \<lparr>id_t = uuid4, session_id_t = session_id_p params,
                    status = \<lparr>state = WORKING, message = None, timestamp = Suc (clock s)\<rparr>,
                    artifacts = None, history = Some [message_p params],
                    metadata_t = Some []\<rparr>,
                 Invoked (message_p params),
                 Updated (heap (snd (create_task mgr params uuid4 s)) (nxt s))] \<and>
            invocations (trace (snd (create_task mgr params uuid4 s)))
              = invocations (trace s) @ [message_p params]) \<and>
         (tasks s task_id = Some a \<and> id_t (heap s a) = task_id \<longrightarrow>
            fst (send_task_message mgr task_id params s)
              = Inl (InternalErrorException
                       (''Error processing task message: '' @ str_exn e) (Some e)) \<and>
            tasks (snd (send_task_message mgr task_id params s)) = tasks s \<and>
            heap (snd (send_task_message mgr task_id params s)) a
              = (heap s a)
                  \<lparr>status := \<lparr>state = FAILED, message = None, timestamp = Suc (clock s)\<rparr>,
                   history := Some (entries (history (heap s a)) @ [message_p params])\<rparr> \<and>
            trace (snd (send_task_message mgr task_id params s))
              = trace s @
                [Updated ((heap s a)
                    \<lparr>status := \<lparr>state = WORKING, message = None, timestamp = clock s\<rparr>,
                     history := Some (entries (history (heap s a)) @ [message_p params])\<rparr>),
                 Invoked (message_p params),
                 Updated (heap (snd (send_task_message mgr task_id params s)) a)] \<and>
            invocations (trace (snd (send_task_message mgr task_id params s)))
              = invocations (trace s) @ [message_p params]) \<and>
         code (InternalErrorException m (Some e)) = Some (-32603)"
  using handler raises
  by (auto simp: create_task_def send_task_message_def action_defs store_create_task_def
      store_update_task_def store_get_task_def truthy_entries invocations_append
      quiet_def Let_def fun_upd_idem split: option.splits)

theorem handler_failure_witness:
  "on_message_received (manager (Some failing_agent)) = Some failing_agent \<and>
   failing_agent (message_p (send_params ''hi'')) = Inl (Exception ''boom'') \<and>
   tasks world0 ''id1'' = None \<and> quiet (on_task_created (manager (Some failing_agent))) \<and>
   tasks (world_storing (sample_task ''id1'' COMPLETED None)) ''id1'' = Some 0 \<and>
   id_t (heap (world_storing (sample_task ''id1'' COMPLETED None)) 0) = ''id1'' \<and>
   fst (create_task (manager (Some failing_agent)) (send_params ''hi'') ''id1'' world0)
     = Inl (InternalErrorException ''Error processing task: boom'' (Some (Exception ''boom''))) \<and>
   state (status (heap (snd (create_task (manager (Some failing_agent)) (send_params ''hi'')
                               ''id1'' world0)) 0)) = FAILED \<and>
   invocations (trace (snd (create_task (manager (Some failing_agent)) (send_params ''hi'')
                              ''id1'' world0))) = [text_message USER ''hi''] \<and>
   fst (send_task_message (manager (Some failing_agent)) ''id1'' (send_params ''hi'')
          (world_storing (sample_task ''id1'' COMPLETED None)))
     = Inl (InternalErrorException ''Error processing task message: boom''
              (Some (Exception ''boom''))) \<and>
   state (status (heap (snd (send_task_message (manager (Some failing_agent)) ''id1''
            (send_params ''hi'') (world_storing (sample_task ''id1'' COMPLETED None)))) 0))
     = FAILED"
  using handler_failure [of "manager (Some failing_agent)" failing_agent "send_params ''hi''"
      "Exception ''boom''" world0 "''id1''" "''id1''" 0 "[]"]
    handler_failure [of "manager (Some failing_agent)" failing_agent "send_params ''hi''"
      "Exception ''boom''" "world_storing (sample_task ''id1'' COMPLETED None)" "''id2''"
      "''id1''" 0 "[]"]
  by (simp add: example_defs quiet_def)

text \<open>
  C9. Let no message handler be configured. A create\_task call (the id drawn not in the
  store, on\_task\_created absent or not raising) and a send\_task\_message call on a
  stored task (filed under its own id) return the task without raising; the task is
  in state WORKING and was last written to the store in that state; its history is
  the inbound message alone after create\_task, and the former history followed by the
  inbound message after send\_task\_message; no response is appended and the task
  reaches no terminal state. process\_message does check for the handler: it raises
  InternalErrorException and changes nothing.
\<close>

theorem no_handler:
  assumes none: "on_message_received mgr = None"
  shows "(tasks s uuid4 = None \<and> quiet (on_task_created mgr) \<longrightarrow>
            fst (create_task mgr params uuid4 s) = Inr (nxt s) \<and>
            tasks (snd (create_task mgr params uuid4 s)) = (tasks s)(uuid4 \<mapsto> nxt s) \<and>
            heap (snd (create_task mgr params uuid4 s)) (nxt s)
              = \<lparr>id_t = uuid4, session_id_t = session_id_p params,
                 status = \<lparr>state = WORKING, message = None, timestamp = Suc (clock s)\<rparr>,
                 artifacts = None, history = Some [message_p params],
                 metadata_t = Some []\<rparr> \<and>
            trace (snd (create_task mgr params uuid4 s))
              = trace s @
                [Created \<lparr>id_t = uuid4, session_id_t = session_id_p params,
                    status = \<lparr>state = SUBMITTED, message = None, timestamp = clock s\<rparr>,
                    artifacts = None, history = Some [message_p params],
                    metadata_t = Some []\<rparr>,
                 Updated (heap (snd (create_task mgr params uuid4 s)) (nxt s))]) \<and>
         (tasks s task_id = Some a \<and> id_t (heap s a) = task_id \<longrightarrow>
            fst (send_task_message mgr task_id params s) = Inr a \<and>
            tasks (snd (send_task_message mgr task_id params s)) = tasks s \<and>
            heap (snd (send_task_message mgr task_id params s)) a
              = (heap s a)
                  \<lparr>status := \<lparr>state = WORKING, message = None, timestamp = clock s\<rparr>,
                   history := Some (entries (history (heap s a)) @ [message_p params])\<rparr> \<and>
            trace (snd (send_task_message mgr task_id params s))
              = trace s @ [Updated (heap (snd (send_task_message mgr task_id params s)) a)]) \<and>
         process_message mgr m s
           = (Inl (InternalErrorException ''No message handler registered'' None), s)"
  using none
  by (auto simp: create_task_def send_task_message_def process_message_def action_defs
      store_create_task_def store_update_task_def store_get_task_def truthy_entries
      quiet_def Let_def fun_upd_idem split: option.splits)

theorem no_handler_witness:
  "on_message_received (manager None) = None \<and>
   tasks world0 ''id1'' = None \<and> quiet (on_task_created (manager None)) \<and>
   tasks (world_storing (sample_task ''id1'' SUBMITTED None)) ''id1'' = Some 0 \<and>
   id_t (heap (world_storing (sample_task ''id1'' SUBMITTED None)) 0) = ''id1'' \<and>
   fst (create_task (manager None) (send_params ''hi'') ''id1'' world0) = Inr 0 \<and>
   state (status (heap (snd (create_task (manager None) (send_params ''hi'') ''id1'' world0)) 0))
     = WORKING \<and>
   history (heap (snd (create_task (manager None) (send_params ''hi'') ''id1'' world0)) 0)
     = Some [text_message USER ''hi''] \<and>
   fst (send_task_message (manager None) ''id1'' (send_params ''hi'')
          (world_storing (sample_task ''id1'' SUBMITTED None))) = Inr 0 \<and>
   state (status (heap (snd (send_task_message (manager None) ''id1'' (send_params ''hi'')
            (world_storing (sample_task ''id1'' SUBMITTED None)))) 0)) = WORKING \<and>
   history (heap (snd (send_task_message (manager None) ''id1'' (send_params ''hi'')
            (world_storing (sample_task ''id1'' SUBMITTED None)))) 0)
     = Some [text_message USER ''hi'']"
  using no_handler [of "manager None" world0 "''id1''" "send_params ''hi''" "''id1''" 0
      "text_message USER ''hi''"]
    no_handler [of "manager None" "world_storing (sample_task ''id1'' SUBMITTED None)" "''id2''"
      "send_params ''hi''" "''id1''" 0 "text_message USER ''hi''"]
  by (simp add: example_defs quiet_def)

section \<open>Streaming\<close>

text \<open>
  C3, as stated, fails: with no message handler configured, the stream of
  send\_task\_message\_stream on a stored task ends normally after its single event,
  the WORKING status with final = False, so it has no final event.
\<close>

theorem stream_without_handler_counterexample:
  "fst (send_task_message_stream (manager None) ''t1'' (send_params ''hi'')
          (world_storing (sample_task ''t1'' SUBMITTED None))) = Inr () \<and>
   events (trace (snd (send_task_message_stream (manager None) ''t1'' (send_params ''hi'')
          (world_storing (sample_task ''t1'' SUBMITTED None)))))
     = [\<lparr>id_e = ''t1'', status_e = \<lparr>state = WORKING, message = None, timestamp = 1\<rparr>,
         final = False, metadata_e = None\<rparr>] \<and>
   length (filter final (events (trace (snd (send_task_message_stream (manager None) ''t1''
          (send_params ''hi'') (world_storing (sample_task ''t1'' SUBMITTED None))))))) \<noteq> 1"
  by (simp add: send_task_message_stream_def action_defs store_defs example_defs Let_def)

text \<open>
  C3, amended. For a stored task (filed under its own id) and a configured handler,
  send\_task\_message\_stream yields exactly two events: the WORKING status with
  final = False, then an event with final = True, which is the last. When the handler
  returns (and on\_task\_updated is absent or does not raise) the final event carries
  the COMPLETED status and the call ends normally; when the handler raises, the final
  event carries the FAILED status, it is yielded after FAILED was written to the store,
  and the call then fails with InternalErrorException. When no handler is configured,
  the stream is the single WORKING event with final = False, the call ends normally
  and the task stays in WORKING.
\<close>

theorem send_task_message_stream_events:
  assumes stored: "tasks s task_id = Some a"
    and key: "id_t (heap s a) = task_id"
  shows "(on_message_received mgr = Some f \<and> f (message_p params) = Inr response \<and>
          quiet (on_task_updated mgr) \<longrightarrow>
            fst (send_task_message_stream mgr task_id params s) = Inr () \<and>
            trace (snd (send_task_message_stream mgr task_id params s))
              = trace s @
                [Updated ((heap s a)
                    \<lparr>status := \<lparr>state = WORKING, message = None, timestamp = clock s\<rparr>,
                     history := Some (entries (history (heap s a)) @ [message_p params])\<rparr>),
                 Yielded \<lparr>id_e = task_id,
                    status_e = \<lparr>state = WORKING, message = None, timestamp = clock s\<rparr>,
                    final = False, metadata_e = None\<rparr>,
                 Invoked (message_p params),
                 Updated ((heap s a)
                    \<lparr>status := \<lparr>state = COMPLETED, message = Some response,
                                timestamp = Suc (clock s)\<rparr>,
                     history := Some (entries (history (heap s a))
                                      @ [message_p params, response])\<rparr>),
                 Yielded \<lparr>id_e = task_id,
                    status_e = \<lparr>state = COMPLETED, message = Some response,
                                timestamp = Suc (clock s)\<rparr>,
                    final = True, metadata_e = None\<rparr>] \<and>
            events (trace (snd (send_task_message_stream mgr task_id params s)))
              = events (trace s) @
                [\<lparr>id_e = task_id,
                    status_e = \<lparr>state = WORKING, message = None, timestamp = clock s\<rparr>,
                    final = False, metadata_e = None\<rparr>,
                 \<lparr>id_e = task_id,
                    status_e = \<lparr>state = COMPLETED, message = Some response,
                                timestamp = Suc (clock s)\<rparr>,
                    final = True, metadata_e = None\<rparr>]) \<and>
         (on_message_received mgr = Some f \<and> f (message_p params) = Inl e \<longrightarrow>
            fst (send_task_message_stream mgr task_id params s)
              = Inl (InternalErrorException
                       (''Error processing task message: '' @ str_exn e) (Some e)) \<and>
            trace (snd (send_task_message_stream mgr task_id params s))
              = trace s @
                [Updated ((heap s a)
                    \<lparr>status := \<lparr>state = WORKING, message = None, timestamp = clock s\<rparr>,
                     history := Some (entries (history (heap s a)) @ [message_p params])\<rparr>),
                 Yielded \<lparr>id_e = task_id,
                    status_e = \<lparr>state = WORKING, message = None, timestamp = clock s\<rparr>,
                    final = False, metadata_e = None\<rparr>,
                 Invoked (message_p params),
                 Updated ((heap s a)
                    \<lparr>status := \<lparr>state = FAILED, message = None, timestamp = Suc (clock s)\<rparr>,
                     history := Some (entries (history (heap s a)) @ [message_p params])\<rparr>),
                 Yielded \<lparr>id_e = task_id,
                    status_e = \<lparr>state = FAILED, message = None, timestamp = Suc (clock s)\<rparr>,
                    final = True, metadata_e = None\<rparr>] \<and>
            events (trace (snd (send_task_message_stream mgr task_id params s)))
              = events (trace s) @
                [\<lparr>id_e = task_id,
                    status_e = \<lparr>state = WORKING, message = None, timestamp = clock s\<rparr>,
                    final = False, metadata_e = None\<rparr>,
                 \<lparr>id_e = task_id,
                    status_e = \<lparr>state = FAILED, message = None, timestamp = Suc (clock s)\<rparr>,
                    final = True, metadata_e = None\<rparr>]) \<and>
         (on_message_received mgr = None \<longrightarrow>
            fst (send_task_message_stream mgr task_id params s) = Inr () \<and>
            events (trace (snd (send_task_message_stream mgr task_id params s)))
              = events (trace s) @
                [\<lparr>id_e = task_id,
                    status_e = \<lparr>state = WORKING, message = None, timestamp = clock s\<rparr>,
                    final = False, metadata_e = None\<rparr>] \<and>
            state (status (heap (snd (send_task_message_stream mgr task_id params s)) a))
              = WORKING)"
  using stored key
  by (auto simp: send_task_message_stream_def action_defs store_update_task_def
      store_get_task_def truthy_entries events_append
      quiet_def Let_def fun_upd_idem split: option.splits)

text \<open>
  Scenario 4 of the specification (a handler that raises), and the same stream with
  the echo agent.
\<close>

theorem send_task_message_stream_events_witness:
  "tasks (world_storing (sample_task ''t1'' SUBMITTED None)) ''t1'' = Some 0 \<and>
   id_t (heap (world_storing (sample_task ''t1'' SUBMITTED None)) 0) = ''t1'' \<and>
   on_message_received (manager (Some failing_agent)) = Some failing_agent \<and>
   failing_agent (message_p (send_params ''hi'')) = Inl (Exception ''boom'') \<and>
   fst (send_task_message_stream (manager (Some failing_agent)) ''t1'' (send_params ''hi'')
          (world_storing (sample_task ''t1'' SUBMITTED None)))
     = Inl (InternalErrorException ''Error processing task message: boom''
              (Some (Exception ''boom''))) \<and>
   events (trace (snd (send_task_message_stream (manager (Some failing_agent)) ''t1''
          (send_params ''hi'') (world_storing (sample_task ''t1'' SUBMITTED None)))))
     = [\<lparr>id_e = ''t1'', status_e = \<lparr>state = WORKING, message = None, timestamp = 1\<rparr>,
         final = False, metadata_e = None\<rparr>,
        \<lparr>id_e = ''t1'', status_e = \<lparr>state = FAILED, message = None, timestamp = 2\<rparr>,
         final = True, metadata_e = None\<rparr>] \<and>
   on_message_received (manager (Some (echo_agent ''m1''))) = Some (echo_agent ''m1'') \<and>
   echo_agent ''m1'' (message_p (send_params ''hi''))
     = Inr ((text_message AGENT ''Echo: hi'')\<lparr>message_id := Some ''m1''\<rparr>) \<and>
   quiet (on_task_updated (manager (Some (echo_agent ''m1'')))) \<and>
   fst (send_task_message_stream (manager (Some (echo_agent ''m1''))) ''t1'' (send_params ''hi'')
          (world_storing (sample_task ''t1'' SUBMITTED None))) = Inr () \<and>
   map final (events (trace (snd (send_task_message_stream (manager (Some (echo_agent ''m1'')))
          ''t1'' (send_params ''hi'') (world_storing (sample_task ''t1'' SUBMITTED None))))))
     = [False, True] \<and>
   on_message_received (manager None) = None \<and>
   map final (events (trace (snd (send_task_message_stream (manager None)
          ''t1'' (send_params ''hi'') (world_storing (sample_task ''t1'' SUBMITTED None))))))
     = [False]"
  using send_task_message_stream_events [of "world_storing (sample_task ''t1'' SUBMITTED None)"
      "''t1''" 0 "manager (Some failing_agent)" failing_agent "send_params ''hi''"
      "text_message AGENT []" "Exception ''boom''"]
    send_task_message_stream_events [of "world_storing (sample_task ''t1'' SUBMITTED None)"
      "''t1''" 0 "manager (Some (echo_agent ''m1''))" "echo_agent ''m1''" "send_params ''hi''"
      "(text_message AGENT ''Echo: hi'')\<lparr>message_id := Some ''m1''\<rparr>" "Exception ''boom''"]
    send_task_message_stream_events [of "world_storing (sample_task ''t1'' SUBMITTED None)"
      "''t1''" 0 "manager None" failing_agent "send_params ''hi''"
      "text_message AGENT []" "Exception ''boom''"]
  by (simp add: example_defs quiet_def)

text \<open>
  Why the amended statement asks on\_task\_updated not to raise: the callback is called
  inside the \<^verbatim>\<open>try\<close> block, after the final COMPLETED event was yielded, so when it
  raises, the \<^verbatim>\<open>except\<close> branch yields a second final event, with FAILED.
\<close>

lemma stream_on_task_updated_raises:
  "map (\<lambda>ev. (state (status_e ev), final ev))
     (events (trace (snd (send_task_message_stream
        ((manager (Some (echo_agent ''m1'')))
           \<lparr>on_task_updated := Some (\<lambda>t. Some (Exception ''boom''))\<rparr>)
        ''t1'' (send_params ''hi'') (world_storing (sample_task ''t1'' SUBMITTED None))))))
   = [(WORKING, False), (COMPLETED, True), (FAILED, True)]"
  by (simp add: send_task_message_stream_def action_defs store_defs example_defs Let_def)

section \<open>Terminal states\<close>

text \<open>
  C1, as stated, fails: send\_task\_message on a stored task in state FAILED returns the
  task and leaves it in state WORKING (here with no handler configured).
\<close>

theorem send_to_terminal_task_counterexample:
  "terminal (state (status (heap (world_storing (sample_task ''t1'' FAILED None)) 0))) \<and>
   fst (send_task_message (manager None) ''t1'' (send_params ''hi'')
          (world_storing (sample_task ''t1'' FAILED None))) = Inr 0 \<and>
   state (status (heap (snd (send_task_message (manager None) ''t1'' (send_params ''hi'')
          (world_storing (sample_task ''t1'' FAILED None)))) 0)) = WORKING"
  by (simp add: send_task_message_def action_defs store_defs example_defs terminal_def Let_def)

text \<open>
  C1, amended. For a task object in a terminal state, no call of cancel\_task,
  get\_task, resubscribe\_task or process\_message, whatever id it is given, and no call
  of create\_task changes the state of that task. send\_task\_message and
  send\_task\_message\_stream make no check of the state: called with the id under
  which the task is stored, they write the task to the store in state WORKING with
  the inbound message appended, and leave it in WORKING when no handler is
  configured and in COMPLETED or FAILED otherwise.
\<close>

theorem terminal_state_kept:
  assumes final_state: "terminal (state (status (heap s a)))"
  shows "state (status (heap (snd (cancel_task mgr any_id s)) a)) = state (status (heap s a)) \<and>
         state (status (heap (snd (get_task mgr params s)) a)) = state (status (heap s a)) \<and>
         state (status (heap (snd (resubscribe_task mgr any_id s)) a))
           = state (status (heap s a)) \<and>
         state (status (heap (snd (process_message mgr m s)) a)) = state (status (heap s a)) \<and>
         (a < nxt s \<longrightarrow>
            state (status (heap (snd (create_task mgr sp uuid4 s)) a))
              = state (status (heap s a))) \<and>
         (tasks s task_id = Some a \<and> id_t (heap s a) = task_id \<longrightarrow>
            (\<exists>rest. trace (snd (send_task_message mgr task_id sp s))
               = trace s @
                 Updated ((heap s a)
                    \<lparr>status := \<lparr>state = WORKING, message = None, timestamp = clock s\<rparr>,
                     history := Some (entries (history (heap s a)) @ [message_p sp])\<rparr>) # rest) \<and>
            (on_message_received mgr = None \<longrightarrow>
               state (status (heap (snd (send_task_message mgr task_id sp s)) a)) = WORKING) \<and>
            (on_message_received mgr \<noteq> None \<longrightarrow>
               state (status (heap (snd (send_task_message mgr task_id sp s)) a))
                 \<in> {COMPLETED, FAILED}) \<and>
            (\<exists>rest. trace (snd (send_task_message_stream mgr task_id sp s))
               = trace s @
                 Updated ((heap s a)
                    \<lparr>status := \<lparr>state = WORKING, message = None, timestamp = clock s\<rparr>,
                     history := Some (entries (history (heap s a)) @ [message_p sp])\<rparr>) # rest) \<and>
            (on_message_received mgr = None \<longrightarrow>
               state (status (heap (snd (send_task_message_stream mgr task_id sp s)) a))
                 = WORKING) \<and>
            (on_message_received mgr \<noteq> None \<longrightarrow>
               state (status (heap (snd (send_task_message_stream mgr task_id sp s)) a))
                 \<in> {COMPLETED, FAILED}))"
proof -
  have cancel:
    "state (status (heap (snd (cancel_task mgr any_id s)) a)) = state (status (heap s a))"
    using final_state
    by (auto simp: cancel_task_def action_defs store_get_task_def store_update_task_def
        terminal_def Let_def split: option.splits)
  have get: "state (status (heap (snd (get_task mgr params s)) a)) = state (status (heap s a))"
    by (auto simp: get_task_def action_defs store_get_task_def split: option.splits list.splits)
  have resub:
    "state (status (heap (snd (resubscribe_task mgr any_id s)) a)) = state (status (heap s a))"
    by (auto simp: resubscribe_task_def action_defs store_get_task_def split: option.splits)
  have pm: "state (status (heap (snd (process_message mgr m s)) a)) = state (status (heap s a))"
    by (auto simp: process_message_def action_defs split: option.splits sum.splits)
  have create:
    "state (status (heap (snd (create_task mgr sp uuid4 s)) a)) = state (status (heap s a))"
    if "a < nxt s"
    using that
    by (auto simp: create_task_def action_defs store_create_task_def store_update_task_def
        Let_def split: option.splits sum.splits)
  have send:
    "(\<exists>rest. trace (snd (send_task_message mgr task_id sp s))
        = trace s @
          Updated ((heap s a)
             \<lparr>status := \<lparr>state = WORKING, message = None, timestamp = clock s\<rparr>,
              history := Some (entries (history (heap s a)) @ [message_p sp])\<rparr>) # rest) \<and>
     (on_message_received mgr = None \<longrightarrow>
        state (status (heap (snd (send_task_message mgr task_id sp s)) a)) = WORKING) \<and>
     (on_message_received mgr \<noteq> None \<longrightarrow>
        state (status (heap (snd (send_task_message mgr task_id sp s)) a))
          \<in> {COMPLETED, FAILED})"
    if "tasks s task_id = Some a \<and> id_t (heap s a) = task_id"
    using that
    by (auto simp: send_task_message_def action_defs store_get_task_def store_update_task_def
        truthy_entries Let_def split: option.splits sum.splits)
  have stream:
    "(\<exists>rest. trace (snd (send_task_message_stream mgr task_id sp s))
        = trace s @
          Updated ((heap s a)
             \<lparr>status := \<lparr>state = WORKING, message = None, timestamp = clock s\<rparr>,
              history := Some (entries (history (heap s a)) @ [message_p sp])\<rparr>) # rest) \<and>
     (on_message_received mgr = None \<longrightarrow>
        state (status (heap (snd (send_task_message_stream mgr task_id sp s)) a)) = WORKING) \<and>
     (on_message_received mgr \<noteq> None \<longrightarrow>
        state (status (heap (snd (send_task_message_stream mgr task_id sp s)) a))
          \<in> {COMPLETED, FAILED})"
    if "tasks s task_id = Some a \<and> id_t (heap s a) = task_id"
    using that
    by (auto simp: send_task_message_stream_def action_defs store_get_task_def
        store_update_task_def truthy_entries Let_def split: option.splits sum.splits)
  show ?thesis
    using cancel get resub pm create send stream by blast
qed

theorem terminal_state_kept_witness:
  "terminal (state (status (heap (world_storing (sample_task ''t1'' CANCELED None)) 0))) \<and>
   (0::nat) < nxt (world_storing (sample_task ''t1'' CANCELED None)) \<and>
   tasks (world_storing (sample_task ''t1'' CANCELED None)) ''t1'' = Some 0 \<and>
   id_t (heap (world_storing (sample_task ''t1'' CANCELED None)) 0) = ''t1'' \<and>
   on_message_received (manager (Some (echo_agent ''m1''))) \<noteq> None \<and>
   state (status (heap (snd (cancel_task (manager (Some (echo_agent ''m1''))) ''t1''
            (world_storing (sample_task ''t1'' CANCELED None)))) 0)) = CANCELED \<and>
   state (status (heap (snd (get_task (manager (Some (echo_agent ''m1''))) (query ''t1'' (Some 1))
            (world_storing (sample_task ''t1'' CANCELED None)))) 0)) = CANCELED \<and>
   state (status (heap (snd (create_task (manager (Some (echo_agent ''m1''))) (send_params ''hi'')
            ''t2'' (world_storing (sample_task ''t1'' CANCELED None)))) 0)) = CANCELED \<and>
   state (status (heap (snd (send_task_message (manager (Some (echo_agent ''m1''))) ''t1''
            (send_params ''hi'') (world_storing (sample_task ''t1'' CANCELED None)))) 0))
     \<in> {COMPLETED, FAILED}"
  using terminal_state_kept [of "world_storing (sample_task ''t1'' CANCELED None)" 0
      "manager (Some (echo_agent ''m1''))" "''t1''" "query ''t1'' (Some 1)"
      "text_message USER ''hi''" "send_params ''hi''" "''t2''" "''t1''"]
  by (simp add: example_defs terminal_def)

section \<open>Truncating the history\<close>

text \<open>
  C2 on the code. A task with three history entries is stored. get\_task with
  history\_length = 1 returns it with one entry; the object it cut is the one the
  store holds, so a following get\_task with no limit returns one entry, not three.
\<close>

theorem get_task_truncates_stored_task:
  "history (heap (world_storing (sample_task ''t1'' COMPLETED (Some three_messages))) 0)
     = Some three_messages \<and>
   fst (get_task (manager None) (query ''t1'' (Some 1))
          (world_storing (sample_task ''t1'' COMPLETED (Some three_messages)))) = Inr 0 \<and>
   fst (get_task (manager None) (query ''t1'' None)
          (snd (get_task (manager None) (query ''t1'' (Some 1))
             (world_storing (sample_task ''t1'' COMPLETED (Some three_messages)))))) = Inr 0 \<and>
   history (heap
     (snd (get_task (manager None) (query ''t1'' None)
        (snd (get_task (manager None) (query ''t1'' (Some 1))
           (world_storing (sample_task ''t1'' COMPLETED (Some three_messages))))))) 0)
     = Some [text_message USER ''three'']"
  by (simp add: get_task_def action_defs store_defs example_defs slice_from_def Let_def)

end
